theory Spec2Isabelle
  imports Complex_Main "HOL-Library.Sublist"
begin

section \<open>Python dictionaries\<close>

text \<open>
  A Python \<^verbatim>\<open>dict\<close> keeps its keys in insertion order and holds each key once.
  It is modelled as an association list: \<open>dict_set\<close> is the assignment
  \<^verbatim>\<open>d[k] = v\<close> (an existing key keeps its position and takes the new value, a new key
  is appended), \<open>dict_get\<close> is \<^verbatim>\<open>d.get(k, default)\<close>. Python floats are modelled as
  exact reals: rounding is not part of the model.
\<close>

type_synonym ('k, 'v) dict = "('k \<times> 'v) list"

fun dict_set :: "'k \<Rightarrow> 'v \<Rightarrow> ('k, 'v) dict \<Rightarrow> ('k, 'v) dict" where
  "dict_set k v [] = [(k, v)]"
| "dict_set k v ((k', v') # d) =
     (if k = k' then (k, v) # d else (k', v') # dict_set k v d)"

definition dict_get :: "('k, 'v) dict \<Rightarrow> 'k \<Rightarrow> 'v \<Rightarrow> 'v" where
  "dict_get d k dflt = (case map_of d k of None \<Rightarrow> dflt | Some v \<Rightarrow> v)"

definition dict_keys :: "('k, 'v) dict \<Rightarrow> 'k list" where
  "dict_keys d = map fst d"


section \<open>Score combiner (app.py)\<close>

text \<open>
  A suggestion is a dictionary with the keys \<^verbatim>\<open>common_name\<close> and
  \<^verbatim>\<open>scientific_name\<close>, both strings.
\<close>

type_synonym bird_dict = "(string, string) dict"

record score_data =
  combined_score :: real
  llm_rank :: int
  llm_score :: real
  ebird_probability :: real
  ebird_score :: real

text \<open>The body of the loop of \<^verbatim>\<open>calculate_combined_scores\<close>, one suggestion at a time.\<close>

fun combined_scores_loop ::
  "bird_dict list \<Rightarrow> (string, real) dict \<Rightarrow> (string, int) dict \<Rightarrow> real \<Rightarrow> real
     \<Rightarrow> (string, score_data) dict \<Rightarrow> (string, score_data) dict" where
  "combined_scores_loop [] ebird_probabilities llm_ranks llm_weight ebird_weight combined_scores =
     combined_scores"
| "combined_scores_loop (bird # rest) ebird_probabilities llm_ranks llm_weight ebird_weight
       combined_scores =
     (let common_name = dict_get bird ''common_name'' '''' in
      if common_name = '''' then
        combined_scores_loop rest ebird_probabilities llm_ranks llm_weight ebird_weight
          combined_scores
      else
        let rank = dict_get llm_ranks common_name 5;
            lscore = (6 - real_of_int rank) / 5;
            ebird_prob = dict_get ebird_probabilities common_name 0;
            escore = ebird_prob / 100;
            combined = (lscore * llm_weight) + (escore * ebird_weight);
            combined_score_percent = combined * 100
        in combined_scores_loop rest ebird_probabilities llm_ranks llm_weight ebird_weight
             (dict_set common_name
                \<lparr>combined_score = combined_score_percent,
                 llm_rank = rank,
                 llm_score = lscore * 100,
                 ebird_probability = ebird_prob,
                 ebird_score = escore * 100\<rparr>
                combined_scores))"

definition calculate_combined_scores ::
  "bird_dict list \<Rightarrow> (string, real) dict \<Rightarrow> (string, int) dict \<Rightarrow> real \<Rightarrow> real
     \<Rightarrow> (string, score_data) dict" where
  "calculate_combined_scores bird_suggestions ebird_probabilities llm_ranks llm_weight
       ebird_weight =
     combined_scores_loop bird_suggestions ebird_probabilities llm_ranks llm_weight
       ebird_weight []"

text \<open>
  The rank mapping built in \<^verbatim>\<open>main\<close>:
  \<^verbatim>\<open>for idx, bird_dict in enumerate(bird_suggestions, 1)\<close>.
\<close>

fun llm_ranks_loop :: "int \<Rightarrow> bird_dict list \<Rightarrow> (string, int) dict \<Rightarrow> (string, int) dict" where
  "llm_ranks_loop idx [] llm_ranks = llm_ranks"
| "llm_ranks_loop idx (bird # rest) llm_ranks =
     (let common_name = dict_get bird ''common_name'' '''' in
      if common_name \<noteq> '''' then
        llm_ranks_loop (idx + 1) rest (dict_set common_name idx llm_ranks)
      else llm_ranks_loop (idx + 1) rest llm_ranks)"

definition build_llm_ranks :: "bird_dict list \<Rightarrow> (string, int) dict" where
  "build_llm_ranks bird_suggestions = llm_ranks_loop 1 bird_suggestions []"

text \<open>The values the combiner should store for one name, as the specification words them.\<close>

definition score_entry ::
  "(string, real) dict \<Rightarrow> (string, int) dict \<Rightarrow> real \<Rightarrow> real \<Rightarrow> string \<Rightarrow> score_data" where
  "score_entry ebird_probabilities llm_ranks llm_weight ebird_weight n =
     \<lparr>combined_score =
        ((6 - real_of_int (dict_get llm_ranks n 5)) / 5 * llm_weight
          + dict_get ebird_probabilities n 0 / 100 * ebird_weight) * 100,
      llm_rank = dict_get llm_ranks n 5,
      llm_score = (6 - real_of_int (dict_get llm_ranks n 5)) / 5 * 100,
      ebird_probability = dict_get ebird_probabilities n 0,
      ebird_score = dict_get ebird_probabilities n 0 / 100 * 100\<rparr>"

definition common_name_of :: "bird_dict \<Rightarrow> string" where
  "common_name_of bird = dict_get bird ''common_name'' ''''"

section \<open>Probability calculator (ebird\_client.py)\<close>



section \<open>Strings\<close>



definition is_space :: "char \<Rightarrow> bool" where
  "is_space c \<longleftrightarrow>
     c \<in> set [CHR 0x09, CHR 0x0A, CHR 0x0B, CHR 0x0C, CHR 0x0D,
               CHR 0x1C, CHR 0x1D, CHR 0x1E, CHR 0x1F, CHR '' '']"



section \<open>Taxonomy index and name resolver (ebird\_client.py)\<close>

text \<open>
  A taxonomy record is a dictionary from field names to strings. The three accessors of
  \<^verbatim>\<open>get_species_code\<close> return the first alias that is present with a non-empty value.
\<close>

type_synonym species = "(string, string) dict"












text \<open>
  The taxonomy load talks to the network. What the outside world answers to one load is
  a value of \<open>taxonomy_fetch\<close>: the key lookup raises \<^verbatim>\<open>ValueError\<close>, the request
  raises, or a response arrives, described by what the loader asks of it (whether its
  text is blank, the rows \<^verbatim>\<open>csv.DictReader\<close> yields or \<open>None\<close> when it raises, and
  what \<^verbatim>\<open>response.json()\<close> gives). The module state is the cache, the lines printed so
  far and, as a ghost counter, the number of requests sent.
\<close>

datatype request_failure = Timeout | HTTPError nat | RequestException | OtherException

datatype json_body = JsonList "species list" | JsonOther | JsonDecodeError










section \<open>Notions of the specification\<close>










section \<open>Dates (the part of \<^verbatim>\<open>datetime\<close> the observation filter uses)\<close>

text \<open>
  A \<^verbatim>\<open>datetime\<close> is a record of its fields. \<open>toordinal\<close> is the proleptic Gregorian
  day number, \<open>timedelta_days a b\<close> is \<^verbatim>\<open>(a - b).days\<close>: a \<^verbatim>\<open>timedelta\<close> is
  normalised with a non-negative time part, so its days are the floor of the difference.
\<close>

record datetime =
  year :: int
  month :: int
  day :: int
  hour :: int
  minute :: int
  second :: int
  microsecond :: int

definition is_leap :: "int \<Rightarrow> bool" where
  "is_leap y \<longleftrightarrow> y mod 4 = 0 \<and> (y mod 100 \<noteq> 0 \<or> y mod 400 = 0)"

definition days_in_month :: "int \<Rightarrow> int \<Rightarrow> int" where
  "days_in_month y m =
     (if m = 2 then (if is_leap y then 29 else 28)
      else if m = 4 \<or> m = 6 \<or> m = 9 \<or> m = 11 then 30 else 31)"

definition days_before_year :: "int \<Rightarrow> int" where
  "days_before_year y = (y - 1) * 365 + (y - 1) div 4 - (y - 1) div 100 + (y - 1) div 400"

definition days_before_month :: "int \<Rightarrow> int \<Rightarrow> int" where
  "days_before_month y m = sum_list (map (days_in_month y) [1..m - 1])"

definition toordinal :: "datetime \<Rightarrow> int" where
  "toordinal d = days_before_year (year d) + days_before_month (year d) (month d) + day d"

definition to_microseconds :: "datetime \<Rightarrow> int" where
  "to_microseconds d =
     (((toordinal d * 24 + hour d) * 60 + minute d) * 60 + second d) * 1000000
       + microsecond d"

definition timedelta_days :: "datetime \<Rightarrow> datetime \<Rightarrow> int" where
  "timedelta_days a b = (to_microseconds a - to_microseconds b) div 86400000000"

text \<open>
  \<^verbatim>\<open>datetime.strptime(s, "%Y-%m-%d")\<close>, with \<open>None\<close> for \<^verbatim>\<open>ValueError\<close>: four digits,
  a dash, a month written 1..12 in one or two digits, a dash, a day written 1..31 in one
  or two digits (or a blank and one digit), nothing after it; then the date must exist.
\<close>

definition is_digit :: "char \<Rightarrow> bool" where
  "is_digit c \<longleftrightarrow> c \<in> set ''0123456789''"

definition digit_value :: "char \<Rightarrow> int" where
  "digit_value c = (case map_of (zip ''0123456789'' [0, 1, 2, 3, 4, 5, 6, 7, 8, 9]) c of
                      Some v \<Rightarrow> v | None \<Rightarrow> 0)"

definition int_of_digits :: "string \<Rightarrow> int" where
  "int_of_digits s = foldl (\<lambda>a c. 10 * a + digit_value c) 0 s"

definition number_upto :: "int \<Rightarrow> string \<Rightarrow> int option" where
  "number_upto bound s =
     (if (length s = 1 \<or> length s = 2) \<and> list_all is_digit s
         \<and> 1 \<le> int_of_digits s \<and> int_of_digits s \<le> bound
      then Some (int_of_digits s) else None)"

definition day_number :: "string \<Rightarrow> int option" where
  "day_number s =
     (case s of
        [sp, d] \<Rightarrow> if sp = CHR '' '' then number_upto 9 [d] else number_upto 31 s
      | _ \<Rightarrow> number_upto 31 s)"

definition make_datetime :: "int \<Rightarrow> int \<Rightarrow> int \<Rightarrow> datetime option" where
  "make_datetime y m d =
     (if 1 \<le> y \<and> y \<le> 9999 \<and> 1 \<le> m \<and> m \<le> 12 \<and> 1 \<le> d \<and> d \<le> days_in_month y m
      then Some \<lparr>year = y, month = m, day = d, hour = 0, minute = 0, second = 0,
                 microsecond = 0\<rparr>
      else None)"

definition strptime_ymd :: "string \<Rightarrow> datetime option" where
  "strptime_ymd s =
     (if length s < 5 \<or> \<not> list_all is_digit (take 4 s) \<or> s ! 4 \<noteq> CHR ''-'' then None
      else
        (let rest = drop 5 s;
             m_text = takeWhile (\<lambda>c. c \<noteq> CHR ''-'') rest;
             after = dropWhile (\<lambda>c. c \<noteq> CHR ''-'') rest
         in case after of
              [] \<Rightarrow> None
            | _ # d_text \<Rightarrow>
                (case (number_upto 12 m_text, day_number d_text) of
                   (Some m, Some d) \<Rightarrow> make_datetime (int_of_digits (take 4 s)) m d
                 | _ \<Rightarrow> None)))"

text \<open>\<^verbatim>\<open>s.split()[0]\<close>: the first blank-separated word, \<open>None\<close> for \<^verbatim>\<open>IndexError\<close>.\<close>

definition split_first :: "string \<Rightarrow> string option" where
  "split_first s =
     (let s' = dropWhile is_space s
      in if s' = [] then None else Some (takeWhile (\<lambda>c. \<not> is_space c) s'))"

section \<open>Observation filter (ebird\_client.py)\<close>

datatype py_exception = IndexError | ValueError | KeyError

type_synonym observation = "(string, string) dict"

text \<open>
  The loop of \<^verbatim>\<open>get_observations_by_coords\<close> and \<^verbatim>\<open>get_observations_by_region\<close>
  over the records of the response. The inner \<^verbatim>\<open>try\<close> catches \<^verbatim>\<open>ValueError\<close> only:
  the \<^verbatim>\<open>IndexError\<close> of \<^verbatim>\<open>split()[0]\<close> leaves the loop.
\<close>

fun filter_loop ::
  "datetime \<Rightarrow> int \<Rightarrow> int \<Rightarrow> observation list \<Rightarrow> observation list
     \<Rightarrow> py_exception + observation list" where
  "filter_loop today days_back years_back [] filtered_obs = Inr filtered_obs"
| "filter_loop today days_back years_back (obs # rest) filtered_obs =
     (let obs_date_str = dict_get obs ''obsDt'' '''' in
      if obs_date_str = '''' then filter_loop today days_back years_back rest filtered_obs
      else
        (case split_first obs_date_str of
           None \<Rightarrow> Inl IndexError
         | Some word \<Rightarrow>
             (case strptime_ymd word of
                None \<Rightarrow> filter_loop today days_back years_back rest filtered_obs
              | Some obs_date \<Rightarrow>
                  (let days_diff = timedelta_days today obs_date in
                   if days_diff \<le> days_back then
                     filter_loop today days_back years_back rest (filtered_obs @ [obs])
                   else if years_back > 0 \<and> month obs_date = month today then
                     (let years_diff = year today - year obs_date in
                      if 1 \<le> years_diff \<and> years_diff \<le> years_back then
                        filter_loop today days_back years_back rest (filtered_obs @ [obs])
                      else filter_loop today days_back years_back rest filtered_obs)
                   else filter_loop today days_back years_back rest filtered_obs))))"

text \<open>
  What the observation endpoint answers to one request: the key lookup raises, the
  request raises, or a list of records arrives. Both functions return the filtered
  records; the lines they print are returned beside them.
\<close>

datatype obs_fetch = ObsKeyMissing | ObsFailed request_failure | ObsResponse "observation list"

definition fetch_and_filter ::
  "string \<Rightarrow> obs_fetch \<Rightarrow> datetime \<Rightarrow> int \<Rightarrow> int \<Rightarrow> observation list \<times> string list" where
  "fetch_and_filter fname fetched today days_back years_back =
     (case fetched of
        ObsKeyMissing \<Rightarrow> ([], [''API key configuration error''])
      | ObsFailed Timeout \<Rightarrow> ([], [''eBird API request timed out for''])
      | ObsFailed (HTTPError status) \<Rightarrow>
          (if status = 401 then ([], [''Invalid eBird API key''])
           else if status = 429 then ([], [''eBird API rate limit exceeded''])
           else if status = 404 then ([], [])
           else ([], [''eBird API error (HTTP)'']))
      | ObsFailed RequestException \<Rightarrow> ([], [''Error fetching observations for''])
      | ObsFailed OtherException \<Rightarrow> ([], [''Unexpected error in '' @ fname])
      | ObsResponse observations \<Rightarrow>
          (case filter_loop today days_back years_back observations [] of
             Inr filtered_obs \<Rightarrow> (filtered_obs, [])
           | Inl e \<Rightarrow> ([], [''Unexpected error in '' @ fname])))"

definition get_observations_by_coords ::
  "obs_fetch \<Rightarrow> datetime \<Rightarrow> string \<Rightarrow> real \<Rightarrow> real \<Rightarrow> int \<Rightarrow> int
     \<Rightarrow> observation list \<times> string list" where
  "get_observations_by_coords fetched today species_code lat lng days_back years_back =
     (if species_code = '''' then ([], [])
      else if \<not> (- 90 \<le> lat \<and> lat \<le> 90) \<or> \<not> (- 180 \<le> lng \<and> lng \<le> 180)
      then ([], [''Invalid coordinates''])
      else fetch_and_filter ''get_observations_by_coords'' fetched today days_back years_back)"

definition get_observations_by_region ::
  "obs_fetch \<Rightarrow> datetime \<Rightarrow> string \<Rightarrow> string \<Rightarrow> int \<Rightarrow> int
     \<Rightarrow> observation list \<times> string list" where
  "get_observations_by_region fetched today species_code region days_back years_back =
     (if species_code = '''' \<or> region = '''' then ([], [])
      else fetch_and_filter ''get_observations_by_region'' fetched today days_back years_back)"

text \<open>The window test of the specification for one parsed date.\<close>

definition in_window :: "datetime \<Rightarrow> int \<Rightarrow> int \<Rightarrow> datetime \<Rightarrow> bool" where
  "in_window today days_back years_back observed_date \<longleftrightarrow>
     timedelta_days today observed_date \<le> days_back
     \<or> (years_back > 0 \<and> month observed_date = month today
        \<and> 1 \<le> year today - year observed_date
        \<and> year today - year observed_date \<le> years_back)"

text \<open>The parsed date of a record, \<open>None\<close> when it is missing or does not parse.\<close>

definition observed_date :: "observation \<Rightarrow> datetime option" where
  "observed_date obs =
     (case split_first (dict_get obs ''obsDt'' '''') of
        None \<Rightarrow> None
      | Some word \<Rightarrow> strptime_ymd word)"

definition kept :: "datetime \<Rightarrow> int \<Rightarrow> int \<Rightarrow> observation \<Rightarrow> bool" where
  "kept today days_back years_back obs \<longleftrightarrow>
     (case observed_date obs of
        None \<Rightarrow> False
      | Some d \<Rightarrow> in_window today days_back years_back d)"

text \<open>A date string that is not empty and holds only blanks.\<close>

definition blank_date :: "observation \<Rightarrow> bool" where
  "blank_date obs \<longleftrightarrow>
     dict_get obs ''obsDt'' '''' \<noteq> '''' \<and> split_first (dict_get obs ''obsDt'' '''') = None"

section \<open>The scoring pipeline (\<^verbatim>\<open>calculate_probabilities\<close>)\<close>







section \<open>Facts about dictionaries\<close>

lemma map_of_dict_set: "map_of (dict_set k v d) = (map_of d)(k \<mapsto> v)"
  by (induction d) (auto simp: fun_eq_iff)

lemma keys_dict_set:
  "map fst (dict_set k v d) = (if k \<in> fst ` set d then map fst d else map fst d @ [k])"
proof (induction d)
  case Nil
  show ?case by simp
next
  case (Cons p d)
  show ?case by (cases p) (use Cons in \<open>auto split: if_splits\<close>)
qed

lemma distinct_dict_set: "distinct (map fst d) \<Longrightarrow> distinct (map fst (dict_set k v d))"
  by (simp add: keys_dict_set)

lemma dict_get_dict_set:
  "dict_get (dict_set k v d) k' dflt = (if k' = k then v else dict_get d k' dflt)"
  by (simp add: dict_get_def map_of_dict_set)

section \<open>Facts about the combiner\<close>

lemma combined_scores_loop_lookup:
  "map_of (combined_scores_loop bs ep lr wl we acc) n =
     (if n \<noteq> '''' \<and> n \<in> common_name_of ` set bs
      then Some (score_entry ep lr wl we n) else map_of acc n)"
proof (induction bs arbitrary: acc)
  case Nil
  show ?case by simp
next
  case (Cons b bs)
  show ?case
  proof (cases "dict_get b ''common_name'' [] = []")
    case True
    then show ?thesis by (simp add: Cons.IH common_name_of_def)
  next
    case False
    then show ?thesis
      by (auto simp: Cons.IH Let_def map_of_dict_set common_name_of_def score_entry_def)
  qed
qed

lemma combined_scores_loop_distinct:
  "distinct (map fst acc) \<Longrightarrow> distinct (map fst (combined_scores_loop bs ep lr wl we acc))"
proof (induction bs arbitrary: acc)
  case Nil
  then show ?case by simp
next
  case (Cons b bs)
  then show ?case by (simp add: Let_def distinct_dict_set)
qed

lemma calculate_combined_scores_lookup:
  "map_of (calculate_combined_scores bs ep lr wl we) n =
     (if n \<noteq> '''' \<and> n \<in> common_name_of ` set bs
      then Some (score_entry ep lr wl we n) else None)"
  by (simp add: calculate_combined_scores_def combined_scores_loop_lookup)

lemma calculate_combined_scores_distinct:
  "distinct (map fst (calculate_combined_scores bs ep lr wl we))"
  by (simp add: calculate_combined_scores_def combined_scores_loop_distinct)

lemma llm_ranks_loop_absent:
  "n \<notin> common_name_of ` set bs \<Longrightarrow> map_of (llm_ranks_loop idx bs acc) n = map_of acc n"
proof (induction bs arbitrary: idx acc)
  case Nil
  show ?case by simp
next
  case (Cons b bs)
  then show ?case
    by (auto simp: Let_def map_of_dict_set common_name_of_def)
qed

lemma llm_ranks_loop_last:
  "n \<noteq> [] \<Longrightarrow> i < length bs \<Longrightarrow> common_name_of (bs ! i) = n \<Longrightarrow>
   (\<forall>j. i < j \<and> j < length bs \<longrightarrow> common_name_of (bs ! j) \<noteq> n) \<Longrightarrow>
   map_of (llm_ranks_loop idx bs acc) n = Some (idx + int i)"
proof (induction bs arbitrary: idx acc i)
  case Nil
  then show ?case by simp
next
  case (Cons b bs)
  show ?case
  proof (cases i)
    case 0
    have "n \<notin> common_name_of ` set bs"
    proof
      assume "n \<in> common_name_of ` set bs"
      then obtain k where "k < length bs" "common_name_of (bs ! k) = n"
        by (auto simp: in_set_conv_nth)
      with Cons.prems(4) 0 show False by (auto dest: spec [of _ "Suc k"])
    qed
    with Cons.prems 0 show ?thesis
      by (simp add: Let_def llm_ranks_loop_absent map_of_dict_set common_name_of_def)
  next
    case (Suc k)
    have "map_of (llm_ranks_loop (idx + 1) bs acc') n = Some (idx + 1 + int k)" for acc'
    proof (rule Cons.IH)
      show "n \<noteq> []" by (rule Cons.prems(1))
      show "k < length bs" using Cons.prems(2) Suc by simp
      show "common_name_of (bs ! k) = n" using Cons.prems(3) Suc by simp
      show "\<forall>j. k < j \<and> j < length bs \<longrightarrow> common_name_of (bs ! j) \<noteq> n"
        using Cons.prems(4) Suc by (auto dest: spec [of _ "Suc j" for j])
    qed
    then show ?thesis using Suc by (simp add: Let_def)
  qed
qed

lemma llm_ranks_loop_distinct:
  "distinct (map fst acc) \<Longrightarrow> distinct (map fst (llm_ranks_loop idx bs acc))"
proof (induction bs arbitrary: idx acc)
  case Nil
  then show ?case by simp
next
  case (Cons b bs)
  then show ?case by (simp add: Let_def distinct_dict_set)
qed

lemma dict_get_Some: "map_of d k = Some v \<Longrightarrow> dict_get d k dflt = v"
  by (simp add: dict_get_def)

lemma dict_get_None: "map_of d k = None \<Longrightarrow> dict_get d k dflt = dflt"
  by (simp add: dict_get_def)


lemma wren_scenario:
  "calculate_combined_scores
     [[(''common_name'', ''Carolina Wren''), (''scientific_name'', ''Thryothorus ludovicianus'')],
      [(''common_name'', ''House Wren''), (''scientific_name'', ''Troglodytes aedon'')]]
     [(''Carolina Wren'', 80), (''House Wren'', 20)]
     [(''Carolina Wren'', 1), (''House Wren'', 2)] (4 / 10) (6 / 10) =
   [(''Carolina Wren'',
       \<lparr>combined_score = 88, llm_rank = 1, llm_score = 100, ebird_probability = 80,
        ebird_score = 80\<rparr>),
    (''House Wren'',
       \<lparr>combined_score = 44, llm_rank = 2, llm_score = 80, ebird_probability = 20,
        ebird_score = 20\<rparr>)]"
  by (simp add: calculate_combined_scores_def dict_get_def Let_def)





text \<open>
  Claim C10. Every suggestion with a non-empty common name gets a result entry; a name
  missing from the rank mapping takes rank 5 (llm_score 0.2, stored as 20), a name missing
  from the probability mapping takes probability 0.
\<close>

theorem absent_rank_or_probability_defaults:
  assumes "bird \<in> set bird_suggestions" "common_name_of bird = n" "n \<noteq> []"
  shows "\<exists>e. map_of (calculate_combined_scores bird_suggestions ebird_probabilities llm_ranks
                  llm_weight ebird_weight) n = Some e
           \<and> (map_of llm_ranks n = None \<longrightarrow> llm_rank e = 5 \<and> llm_score e = 2 / 10 * 100)
           \<and> (map_of ebird_probabilities n = None \<longrightarrow>
                ebird_probability e = 0 \<and> ebird_score e = 0)"
proof -
  let ?e = "score_entry ebird_probabilities llm_ranks llm_weight ebird_weight n"
  have "map_of (calculate_combined_scores bird_suggestions ebird_probabilities llm_ranks
                  llm_weight ebird_weight) n = Some ?e"
    using assms by (auto simp: calculate_combined_scores_lookup)
  moreover have "map_of llm_ranks n = None \<longrightarrow> llm_rank ?e = 5 \<and> llm_score ?e = 2 / 10 * 100"
    by (simp add: score_entry_def dict_get_None)
  moreover have "map_of ebird_probabilities n = None \<longrightarrow>
      ebird_probability ?e = 0 \<and> ebird_score ?e = 0"
    by (simp add: score_entry_def dict_get_None)
  ultimately show ?thesis by (intro exI [where x = ?e] conjI)
qed

theorem absent_rank_or_probability_defaults_witness:
  "\<exists>e. map_of (calculate_combined_scores
             [[(''common_name'', ''Dodo''), (''scientific_name'', ''Raphus cucullatus'')]]
             [(''Wren'', 100)] [(''Wren'', 1)] (4 / 10) (6 / 10)) ''Dodo'' = Some e
       \<and> llm_rank e = 5 \<and> llm_score e = 20 \<and> ebird_probability e = 0 \<and> ebird_score e = 0"
  using absent_rank_or_probability_defaults
    [of "[(''common_name'', ''Dodo''), (''scientific_name'', ''Raphus cucullatus'')]"
        "[[(''common_name'', ''Dodo''), (''scientific_name'', ''Raphus cucullatus'')]]"
        "''Dodo''" "[(''Wren'', 100)]" "[(''Wren'', 1)]" "4 / 10" "6 / 10"]
  by (simp add: common_name_of_def dict_get_def)

text \<open>
  Claim C8. When a non-empty name occurs several times among the suggestions, the rank
  mapping built in \<^verbatim>\<open>main\<close> holds the (1-based) position of its last occurrence, the
  score mapping holds one entry for it, carrying that rank, and no key occurs twice in
  either mapping.
\<close>

theorem duplicate_names_last_write_wins:
  assumes "i < length bird_suggestions" "common_name_of (bird_suggestions ! i) = n" "n \<noteq> []"
    and "\<forall>j. i < j \<and> j < length bird_suggestions \<longrightarrow> common_name_of (bird_suggestions ! j) \<noteq> n"
  shows "map_of (build_llm_ranks bird_suggestions) n = Some (int i + 1)
       \<and> (\<exists>e. map_of (calculate_combined_scores bird_suggestions ebird_probabilities
                  (build_llm_ranks bird_suggestions) llm_weight ebird_weight) n = Some e
              \<and> llm_rank e = int i + 1)
       \<and> distinct (dict_keys (build_llm_ranks bird_suggestions))
       \<and> distinct (dict_keys (calculate_combined_scores bird_suggestions ebird_probabilities
                  (build_llm_ranks bird_suggestions) llm_weight ebird_weight))
       \<and> length (filter (\<lambda>k. k = n) (dict_keys (calculate_combined_scores bird_suggestions
                  ebird_probabilities (build_llm_ranks bird_suggestions) llm_weight
                  ebird_weight))) = 1"
proof -
  let ?lr = "build_llm_ranks bird_suggestions"
  let ?res = "calculate_combined_scores bird_suggestions ebird_probabilities ?lr llm_weight
                ebird_weight"
  have rank: "map_of ?lr n = Some (int i + 1)"
    using llm_ranks_loop_last [OF assms(3,1,2,4), of 1 "[]"] by (simp add: build_llm_ranks_def)
  have mem: "n \<in> common_name_of ` set bird_suggestions"
    using assms(1,2) by (metis imageI nth_mem)
  have look: "map_of ?res n = Some (score_entry ebird_probabilities ?lr llm_weight ebird_weight n)"
    using mem assms(3) by (simp add: calculate_combined_scores_lookup)
  have e: "llm_rank (score_entry ebird_probabilities ?lr llm_weight ebird_weight n) = int i + 1"
    using rank by (simp add: score_entry_def dict_get_Some)
  have d1: "distinct (dict_keys ?lr)"
    by (simp add: dict_keys_def build_llm_ranks_def llm_ranks_loop_distinct)
  have d2: "distinct (dict_keys ?res)"
    by (simp add: dict_keys_def calculate_combined_scores_distinct)
  have "n \<in> set (dict_keys ?res)"
    using look by (metis dict_keys_def map_of_eq_None_iff option.distinct(1) set_map)
  with d2 have "length (filter (\<lambda>k. k = n) (dict_keys ?res)) = 1"
    by (simp add: distinct_length_filter)
  with rank look e d1 d2 show ?thesis by blast
qed

theorem duplicate_names_last_write_wins_witness:
  "build_llm_ranks [[(''common_name'', ''Wren'')], [(''common_name'', ''Robin'')],
                    [(''common_name'', ''Wren'')]] = [(''Wren'', 3), (''Robin'', 2)]
   \<and> map_of (build_llm_ranks [[(''common_name'', ''Wren'')], [(''common_name'', ''Robin'')],
                    [(''common_name'', ''Wren'')]]) ''Wren'' = Some (int 2 + 1)
   \<and> length (filter (\<lambda>k. k = ''Wren'') (dict_keys (calculate_combined_scores
        [[(''common_name'', ''Wren'')], [(''common_name'', ''Robin'')],
         [(''common_name'', ''Wren'')]] [(''Wren'', 75), (''Robin'', 25)]
        (build_llm_ranks [[(''common_name'', ''Wren'')], [(''common_name'', ''Robin'')],
                    [(''common_name'', ''Wren'')]]) (4 / 10) (6 / 10)))) = 1"
proof -
  let ?bs = "[[(''common_name'', ''Wren'')], [(''common_name'', ''Robin'')],
              [(''common_name'', ''Wren'')]]"
  have h: "2 < length ?bs" "common_name_of (?bs ! 2) = ''Wren''" "''Wren'' \<noteq> []"
    "\<forall>j. 2 < j \<and> j < length ?bs \<longrightarrow> common_name_of (?bs ! j) \<noteq> ''Wren''"
    by (simp_all add: common_name_of_def dict_get_def)
  have "build_llm_ranks ?bs = [(''Wren'', 3), (''Robin'', 2)]"
    by (simp add: build_llm_ranks_def dict_get_def)
  with duplicate_names_last_write_wins [OF h, of "[(''Wren'', 75), (''Robin'', 25)]" "4 / 10" "6 / 10"]
  show ?thesis by simp
qed


















































text \<open>
  When no record has a date string made of blanks only, the loop returns, in their order
  and each once, exactly the records whose date parses and lies in the recent window or the
  anniversary window; records with a missing or unparsable date are left out.
\<close>

lemma filter_loop_window:
  assumes "\<forall>obs \<in> set observations. \<not> blank_date obs"
  shows "filter_loop today days_back years_back observations filtered_obs =
           Inr (filtered_obs @ filter (kept today days_back years_back) observations)"
  using assms
proof (induction observations arbitrary: filtered_obs)
  case Nil
  show ?case by simp
next
  case (Cons obs rest)
  have IH: "filter_loop today days_back years_back rest acc =
           Inr (acc @ filter (kept today days_back years_back) rest)" for acc
    using Cons by simp
  have nb: "\<not> blank_date obs" using Cons.prems by simp
  show ?case
  proof (cases "dict_get obs ''obsDt'' [] = []")
    case True
    then have "\<not> kept today days_back years_back obs"
      by (simp add: kept_def observed_date_def split_first_def)
    with True show ?thesis by (simp add: IH)
  next
    case False
    with nb obtain word where w: "split_first (dict_get obs ''obsDt'' []) = Some word"
      by (auto simp: blank_date_def)
    show ?thesis
    proof (cases "strptime_ymd word")
      case None
      then have "\<not> kept today days_back years_back obs"
        by (simp add: kept_def observed_date_def w)
      with False w None show ?thesis by (simp add: IH)
    next
      case (Some d)
      then have k: "kept today days_back years_back obs = in_window today days_back years_back d"
        by (simp add: kept_def observed_date_def w)
      show ?thesis
        using False w Some by (auto simp: IH k in_window_def Let_def)
    qed
  qed
qed

text \<open>
  A date string made of blanks only passes the test \<^verbatim>\<open>if not obs_date_str\<close>, and
  \<^verbatim>\<open>split()[0]\<close> then raises \<^verbatim>\<open>IndexError\<close>, which the inner handler does not catch.
\<close>

lemma filter_loop_blank:
  assumes "obs \<in> set observations" "blank_date obs"
  shows "filter_loop today days_back years_back observations filtered_obs = Inl IndexError"
  using assms
proof (induction observations arbitrary: filtered_obs)
  case Nil
  then show ?case by simp
next
  case (Cons o' rest)
  show ?case
  proof (cases "blank_date o'")
    case True
    then show ?thesis by (simp add: blank_date_def)
  next
    case False
    with Cons.prems have "obs \<in> set rest" by auto
    then have IH: "filter_loop today days_back years_back rest acc = Inl IndexError" for acc
      using Cons.IH Cons.prems(2) by simp
    show ?thesis
      by (simp add: IH Let_def split: option.splits)
  qed
qed

text \<open>
  For a clock value with a proper time of day and a date parsed at midnight, the days of
  the difference are the difference of the day numbers.
\<close>

lemma timedelta_days_midnight:
  assumes "0 \<le> hour a" "hour a < 24" "0 \<le> minute a" "minute a < 60"
    "0 \<le> second a" "second a < 60" "0 \<le> microsecond a" "microsecond a < 1000000"
    "hour b = 0" "minute b = 0" "second b = 0" "microsecond b = 0"
  shows "timedelta_days a b = toordinal a - toordinal b"
proof -
  define tod where "tod = ((hour a * 60 + minute a) * 60 + second a) * 1000000 + microsecond a"
  have lo: "0 \<le> tod" using assms by (simp add: tod_def)
  have "(hour a * 60 + minute a) * 60 + second a \<le> (23 * 60 + 59) * 60 + 59"
    using assms by (intro add_mono mult_right_mono) auto
  then have hi: "tod < 86400000000" using assms(8) by (simp add: tod_def)
  have "to_microseconds a - to_microseconds b =
          (toordinal a - toordinal b) * 86400000000 + tod"
    using assms(9-12) by (simp add: to_microseconds_def tod_def algebra_simps)
  then have "timedelta_days a b = ((toordinal a - toordinal b) * 86400000000 + tod) div 86400000000"
    by (simp add: timedelta_days_def)
  also have "\<dots> = toordinal a - toordinal b"
    using lo hi by (simp add: div_pos_pos_trivial)
  finally show ?thesis .
qed

lemma strptime_ymd_midnight:
  "strptime_ymd s = Some d \<Longrightarrow> hour d = 0 \<and> minute d = 0 \<and> second d = 0 \<and> microsecond d = 0"
  by (auto simp: strptime_ymd_def make_datetime_def Let_def
      split: if_splits list.splits option.splits)


text \<open>
  Claim C3, at the input where the code departs from it. On 2026-11-03 with a window of
  30 days and 5 years, the response holds a record dated 2026-11-01, which the window
  keeps, and a record whose date is a single blank. Both functions return no record at
  all and print a line; with an unparsable date in place of the blank one, the first
  record is returned and nothing is printed.
\<close>

theorem blank_date_aborts_batch:
  "get_observations_by_coords
     (ObsResponse [[(''obsDt'', ''2026-11-01 10:30'')], [(''obsDt'', '' '')]])
     \<lparr>year = 2026, month = 11, day = 3, hour = 15, minute = 38, second = 0, microsecond = 0\<rparr>
     ''carwre'' 35 (- 80) 30 5
   = ([], [''Unexpected error in get_observations_by_coords''])
   \<and> get_observations_by_region
     (ObsResponse [[(''obsDt'', ''2026-11-01 10:30'')], [(''obsDt'', '' '')]])
     \<lparr>year = 2026, month = 11, day = 3, hour = 15, minute = 38, second = 0, microsecond = 0\<rparr>
     ''carwre'' ''US-NC'' 30 5
   = ([], [''Unexpected error in get_observations_by_region''])
   \<and> kept \<lparr>year = 2026, month = 11, day = 3, hour = 15, minute = 38, second = 0,
            microsecond = 0\<rparr> 30 5 [(''obsDt'', ''2026-11-01 10:30'')]
   \<and> get_observations_by_coords
     (ObsResponse [[(''obsDt'', ''2026-11-01 10:30'')], [(''obsDt'', ''soon'')]])
     \<lparr>year = 2026, month = 11, day = 3, hour = 15, minute = 38, second = 0, microsecond = 0\<rparr>
     ''carwre'' 35 (- 80) 30 5
   = ([[(''obsDt'', ''2026-11-01 10:30'')]], [])"
proof -
  let ?today = "\<lparr>year = 2026, month = 11, day = 3, hour = 15, minute = 38, second = 0,
                  microsecond = 0\<rparr>"
  let ?good = "[(''obsDt'', ''2026-11-01 10:30'')]"
  let ?blank = "[(''obsDt'', '' '')]"
  let ?bad = "[(''obsDt'', ''soon'')]"
  have b: "blank_date ?blank"
    by (simp add: blank_date_def dict_get_def split_first_def is_space_def)
  have nb: "\<not> blank_date ?good" "\<not> blank_date ?bad"
    by (simp_all add: blank_date_def dict_get_def split_first_def is_space_def)
  have k: "kept ?today 30 5 ?good" by code_simp
  have nk: "\<not> kept ?today 30 5 ?bad" by code_simp
  have l1: "filter_loop ?today 30 5 [?good, ?blank] [] = Inl IndexError"
    using filter_loop_blank [of ?blank "[?good, ?blank]"] b by (simp del: filter_loop.simps)
  have l2: "filter_loop ?today 30 5 [?good, ?bad] [] = Inr [?good]"
    using filter_loop_window [of "[?good, ?bad]" ?today 30 5 "[]"] nb k nk
    by (simp del: filter_loop.simps)
  have "get_observations_by_coords (ObsResponse [?good, ?blank]) ?today ''carwre'' 35 (- 80) 30 5
          = ([], [''Unexpected error in get_observations_by_coords''])"
    by (simp add: get_observations_by_coords_def fetch_and_filter_def l1 del: filter_loop.simps)
  moreover
  have "get_observations_by_region (ObsResponse [?good, ?blank]) ?today ''carwre'' ''US-NC'' 30 5
          = ([], [''Unexpected error in get_observations_by_region''])"
    by (simp add: get_observations_by_region_def fetch_and_filter_def l1 del: filter_loop.simps)
  moreover
  have "get_observations_by_coords (ObsResponse [?good, ?bad]) ?today ''carwre'' 35 (- 80) 30 5
          = ([?good], [])"
    by (simp add: get_observations_by_coords_def fetch_and_filter_def l2 del: filter_loop.simps)
  ultimately show ?thesis using k by simp
qed











text \<open>
  The input above passes both guards of \<^verbatim>\<open>get_observations_by_coords\<close> (a species
  code, coordinates in range): the empty result comes from the loop over the records,
  which ends in \<^verbatim>\<open>IndexError\<close>.
\<close>

theorem blank_date_aborts_batch_witness:
  "''carwre'' \<noteq> [] \<and> - 90 \<le> (35::real) \<and> (35::real) \<le> 90
   \<and> - 180 \<le> (- 80::real) \<and> (- 80::real) \<le> 180
   \<and> filter_loop
       \<lparr>year = 2026, month = 11, day = 3, hour = 15, minute = 38, second = 0, microsecond = 0\<rparr>
       30 5 [[(''obsDt'', ''2026-11-01 10:30'')], [(''obsDt'', '' '')]] [] = Inl IndexError
   \<and> fst (get_observations_by_coords
       (ObsResponse [[(''obsDt'', ''2026-11-01 10:30'')], [(''obsDt'', '' '')]])
       \<lparr>year = 2026, month = 11, day = 3, hour = 15, minute = 38, second = 0, microsecond = 0\<rparr>
       ''carwre'' 35 (- 80) 30 5) = []"
proof -
  have "blank_date [(''obsDt'', '' '')]"
    by (simp add: blank_date_def dict_get_def split_first_def is_space_def)
  then have "filter_loop
       \<lparr>year = 2026, month = 11, day = 3, hour = 15, minute = 38, second = 0, microsecond = 0\<rparr>
       30 5 [[(''obsDt'', ''2026-11-01 10:30'')], [(''obsDt'', '' '')]] [] = Inl IndexError"
    by (intro filter_loop_blank [where obs = "[(''obsDt'', '' '')]"]) simp_all
  with blank_date_aborts_batch show ?thesis by simp
qed

end
